theory Spec2Isabelle
  imports Complex_Main
begin

section \<open>Python values used by awsrastools.py\<close>

text \<open>
  Text is modelled as \<open>string\<close> (a list of 8-bit characters); the model covers ASCII
  text, which is what HEC-RAS project, plan and unsteady-flow files hold. A file is its
  whole content, one string; \<open>readlines\<close> cuts it into lines that keep their newline.
  Every exception the modelled code can raise is a value of \<open>py_error\<close>.
\<close>

datatype py_error = FileNotFoundError | SameFileError | ValueError | KeyError

subsection \<open>Characters and decimal numerals\<close>

definition is_digit :: "char \<Rightarrow> bool" where
  "is_digit c = (c \<in> set ''0123456789'')"

text \<open>\<open>str.strip\<close> removes the ASCII white space characters (codes 9-13, 28-32).\<close>

definition is_space :: "char \<Rightarrow> bool" where
  "is_space c = (let n = (of_char c :: nat) in (9 \<le> n \<and> n \<le> 13) \<or> (28 \<le> n \<and> n \<le> 32))"

definition py_strip :: "string \<Rightarrow> string" where
  "py_strip s = rev (dropWhile is_space (rev (dropWhile is_space s)))"

definition lower_char :: "char \<Rightarrow> char" where
  "lower_char c = (let n = (of_char c :: nat) in if 65 \<le> n \<and> n \<le> 90 then char_of (n + 32) else c)"

definition digit_val :: "char \<Rightarrow> nat" where
  "digit_val c = of_char c - 48"

definition digit_char :: "nat \<Rightarrow> char" where
  "digit_char d = char_of (48 + d)"

text \<open>\<open>int(s)\<close> on a string of decimal digits.\<close>

definition digits_to_nat :: "string \<Rightarrow> nat" where
  "digits_to_nat s = foldl (\<lambda>a c. 10 * a + digit_val c) 0 s"

text \<open>\<open>str(n)\<close> for a natural number.\<close>

fun show_nat :: "nat \<Rightarrow> string" where
  "show_nat n = (if n < 10 then [digit_char n] else show_nat (n div 10) @ [digit_char (n mod 10)])"

declare show_nat.simps [simp del]

text \<open>\<open>str(v)\<close> for an integer.\<close>

definition show_int :: "int \<Rightarrow> string" where
  "show_int v = (if v < 0 then CHR ''-'' # show_nat (nat (- v)) else show_nat (nat v))"

text \<open>The format \<open>f"{n:02d}"\<close> of a natural number: zero-padded to width two, never cut.\<close>

definition fmt02d :: "nat \<Rightarrow> string" where
  "fmt02d n = replicate (2 - length (show_nat n)) (CHR ''0'') @ show_nat n"

subsection \<open>Lines of a file\<close>

text \<open>\<open>file.readlines()\<close>: each line keeps its newline; a last line may lack one.\<close>

fun readlines_acc :: "string \<Rightarrow> string \<Rightarrow> string list" where
  "readlines_acc acc [] = (if acc = [] then [] else [rev acc])"
| "readlines_acc acc (c # cs) =
     (if c = CHR 0x0A then rev (c # acc) # readlines_acc [] cs else readlines_acc (c # acc) cs)"

definition readlines :: "string \<Rightarrow> string list" where
  "readlines s = readlines_acc [] s"

text \<open>\<open>file.writelines(lines)\<close> writes the strings one after the other.\<close>

definition writelines :: "string list \<Rightarrow> string" where
  "writelines ls = concat ls"

text \<open>\<open>s.startswith(p)\<close>\<close>

definition startswith :: "string \<Rightarrow> string \<Rightarrow> bool" where
  "startswith s p = (take (length p) s = p)"

text \<open>\<open>s.split('=')\<close>: the pieces between the separators, at least one piece.\<close>

fun split_on :: "char \<Rightarrow> string \<Rightarrow> string list" where
  "split_on d [] = [[]]"
| "split_on d (c # cs) =
     (if c = d then [] # split_on d cs
      else (case split_on d cs of p # ps \<Rightarrow> (c # p) # ps | [] \<Rightarrow> [[c]]))"

subsection \<open>The regular expressions of the registry\<close>

text \<open>
  Every pattern of the registry is a literal key followed by \<open>\d+\<close>. \<open>match_key_digits\<close>
  is \<open>re.compile('^' + key + '(\d+)', re.IGNORECASE).match(s)\<close>: the digits of group 1 when
  \<open>s\<close> starts with the key (letter case ignored) and at least one digit follows.
\<close>

definition match_key_digits :: "string \<Rightarrow> string \<Rightarrow> string option" where
  "match_key_digits key s =
     (let ds = takeWhile is_digit (drop (length key) s)
      in if map lower_char (take (length key) s) = map lower_char key \<and> ds \<noteq> []
         then Some ds else None)"

section \<open>Resource registry: numbering\<close>

subsection \<open>Gap-fill: \<open>get_next_available_number\<close>\<close>

text \<open>
  \<open>existing_set = set(int(num[1:]) for num in existing_numbers if num[1:].isdigit())\<close>.
  \<open>str.isdigit\<close> is false on the empty string.
\<close>

definition isdigit :: "string \<Rightarrow> bool" where
  "isdigit s = (s \<noteq> [] \<and> list_all is_digit s)"

definition existing_set :: "string list \<Rightarrow> nat list" where
  "existing_set existing_numbers =
     map (\<lambda>num. digits_to_nat (drop 1 num)) (filter (\<lambda>num. isdigit (drop 1 num)) existing_numbers)"

text \<open>\<open>while next_num in existing_set: next_num += 1\<close>\<close>

function next_num_loop :: "nat list \<Rightarrow> nat \<Rightarrow> nat" where
  "next_num_loop es n = (if n \<in> set es then next_num_loop es (Suc n) else n)"
  by pat_completeness auto
termination
proof (relation "measure (\<lambda>(es, n). Suc (Max (set es)) - n)")
  show "wf (measure (\<lambda>(es, n). Suc (Max (set es)) - n))" by simp
next
  fix es :: "nat list" and n :: nat
  assume "n \<in> set es"
  then have "n \<le> Max (set es)" by simp
  then show "((es, Suc n), (es, n)) \<in> measure (\<lambda>(es, n). Suc (Max (set es)) - n)" by simp
qed

declare next_num_loop.simps [simp del]

definition get_next_available_number :: "string list \<Rightarrow> string" where
  "get_next_available_number existing_numbers = fmt02d (next_num_loop (existing_set existing_numbers) 1)"

subsection \<open>Gap-fill: the inline scan of \<open>copy_geometry_from_template\<close>\<close>

text \<open>
  The numbers of the lines that match \<open>^Geom File=g(\d+)\<close> after \<open>strip\<close>, in file order.
\<close>

definition key_numbers :: "string \<Rightarrow> string list \<Rightarrow> nat list" where
  "key_numbers key lines =
     concat (map (\<lambda>line. case match_key_digits key (py_strip line) of
                           Some ds \<Rightarrow> [digits_to_nat ds] | None \<Rightarrow> []) lines)"

text \<open>
  \<open>for num in existing_numbers: if num == next_number: next_number += 1 else: break\<close>
\<close>

fun gap_scan :: "nat list \<Rightarrow> nat \<Rightarrow> nat" where
  "gap_scan [] next_number = next_number"
| "gap_scan (num # nums) next_number =
     (if num = next_number then gap_scan nums (next_number + 1) else next_number)"

definition geom_next_number :: "string list \<Rightarrow> nat" where
  "geom_next_number lines =
     (let existing_numbers = key_numbers ''Geom File=g'' lines
      in if existing_numbers \<noteq> [] then gap_scan (sort existing_numbers) 1 else 1)"

subsection \<open>Append: \<open>copy_unsteady_from_template\<close> and \<open>copy_plan_from_template\<close>\<close>

text \<open>Python's \<open>max\<close> of a non-empty list: a left-to-right scan keeping the larger.\<close>

definition py_max :: "nat list \<Rightarrow> nat" where
  "py_max xs = foldl max (hd xs) (tl xs)"

text \<open>\<open>max(existing_numbers) + 1 if existing_numbers else 1\<close>\<close>

definition append_next_number :: "nat list \<Rightarrow> nat" where
  "append_next_number existing_numbers =
     (if existing_numbers \<noteq> [] then py_max existing_numbers + 1 else 1)"

definition unsteady_next_number :: "string list \<Rightarrow> nat" where
  "unsteady_next_number lines = append_next_number (key_numbers ''Unsteady File=u'' lines)"


text \<open>
  \<open>re.findall(key + '(\d+)', content)\<close>, letter case respected: the search goes from left
  to right and resumes after each match.
\<close>

function findall_key_digits :: "string \<Rightarrow> string \<Rightarrow> string list" where
  "findall_key_digits key s =
     (if s = [] then []
      else if startswith s key \<and> takeWhile is_digit (drop (length key) s) \<noteq> []
      then takeWhile is_digit (drop (length key) s)
             # findall_key_digits key (dropWhile is_digit (drop (length key) s))
      else findall_key_digits key (tl s))"
  by pat_completeness auto
termination
proof (relation "measure (\<lambda>(key, s). length s)")
  show "wf (measure (\<lambda>(key, s). length s))" by simp
next
  fix key s :: string
  assume "s \<noteq> []"
    and "startswith s key \<and> takeWhile is_digit (drop (length key) s) \<noteq> []"
  then have "1 \<le> length (takeWhile is_digit (drop (length key) s))"
    by (cases "takeWhile is_digit (drop (length key) s)") simp_all
  moreover have "length (takeWhile is_digit (drop (length key) s))
          + length (dropWhile is_digit (drop (length key) s)) = length (drop (length key) s)"
    by (metis length_append takeWhile_dropWhile_id)
  moreover have "length (drop (length key) s) \<le> length s" by simp
  ultimately have "length (dropWhile is_digit (drop (length key) s)) < length s" by linarith
  then show "((key, dropWhile is_digit (drop (length key) s)), (key, s))
               \<in> measure (\<lambda>(key, s). length s)"
    by simp
next
  fix key s :: string
  assume "s \<noteq> []"
  then show "((key, tl s), (key, s)) \<in> measure (\<lambda>(key, s). length s)"
    by (cases s) simp_all
qed

declare findall_key_digits.simps [simp del]

definition plan_next_number :: "string \<Rightarrow> nat" where
  "plan_next_number project_content =
     append_next_number (map digits_to_nat (findall_key_digits ''Plan File=p'' project_content))"


section \<open>Resource registry: files\<close>

text \<open>
  The file system is a map from paths to file contents. Paths follow the POSIX
  conventions of \<open>os.path.join\<close> and \<open>Path.stem\<close>; no claim depends on them.
\<close>

type_synonym fs = "string \<rightharpoonup> string"

definition path_join :: "string \<Rightarrow> string \<Rightarrow> string" where
  "path_join folder name =
     (if name \<noteq> [] \<and> hd name = CHR ''/'' then name
      else if folder = [] \<or> last folder = CHR ''/'' then folder @ name
      else folder @ ''/'' @ name)"

definition path_name :: "string \<Rightarrow> string" where
  "path_name p = (case filter (\<lambda>piece. piece \<noteq> []) (split_on (CHR ''/'') p) of
                    [] \<Rightarrow> [] | ps \<Rightarrow> last ps)"

definition path_stem :: "string \<Rightarrow> string" where
  "path_stem p =
     (let name = path_name p;
          after_dot = length (takeWhile (\<lambda>c. c \<noteq> CHR ''.'') (rev name))
      in if CHR ''.'' \<in> set name \<and> 0 < after_dot \<and> after_dot + 1 < length name
         then take (length name - after_dot - 1) name else name)"

text \<open>\<open>shutil.copyfile(src, dst)\<close>\<close>

definition copyfile :: "fs \<Rightarrow> string \<Rightarrow> string \<Rightarrow> py_error + fs" where
  "copyfile files src dst =
     (if src = dst then Inl SameFileError
      else case files src of None \<Rightarrow> Inl FileNotFoundError | Some c \<Rightarrow> Inr (files(dst \<mapsto> c)))"

text \<open>\<open>lines.insert(i, x)\<close> for \<open>i \<ge> 0\<close>: an index past the end appends.\<close>

definition list_insert :: "nat \<Rightarrow> 'a \<Rightarrow> 'a list \<Rightarrow> 'a list" where
  "list_insert i x xs = take i xs @ [x] @ drop i xs"

subsection \<open>\<open>copy_geometry_from_template\<close>\<close>

text \<open>
  The first line, from index \<open>i\<close> on, that matches the geometry pattern with a number
  not below the new one.
\<close>

fun geom_insertion_index :: "nat \<Rightarrow> string list \<Rightarrow> nat \<Rightarrow> nat option" where
  "geom_insertion_index i [] next_number = None"
| "geom_insertion_index i (line # rest) next_number =
     (case match_key_digits ''Geom File=g'' (py_strip line) of
        Some ds \<Rightarrow>
          (if digits_to_nat ds < next_number then geom_insertion_index (i + 1) rest next_number
           else Some i)
      | None \<Rightarrow> geom_insertion_index (i + 1) rest next_number)"

text \<open>\<open>^(Proj Title|Current Plan|Default Exp/Contr|English Units)\<close>, letter case ignored.\<close>

definition header_match :: "string \<Rightarrow> bool" where
  "header_match s =
     list_ex (\<lambda>key. map lower_char (take (length key) s) = map lower_char key)
       [''Proj Title'', ''Current Plan'', ''Default Exp/Contr'', ''English Units'']"

definition insert_geom_line :: "string list \<Rightarrow> nat \<Rightarrow> string list" where
  "insert_geom_line lines next_number =
     (let new_geom_line = ''Geom File=g'' @ fmt02d next_number @ [CHR 0x0A]
      in case geom_insertion_index 0 lines next_number of
           Some insertion_index \<Rightarrow> list_insert insertion_index new_geom_line lines
         | None \<Rightarrow>
             (let header_indices = filter (\<lambda>i. header_match (py_strip (lines ! i))) [0..<length lines]
              in if header_indices \<noteq> []
                 then list_insert (last header_indices + 2) new_geom_line lines
                 else list_insert 0 new_geom_line lines))"

definition copy_geometry_from_template ::
  "fs \<Rightarrow> string \<Rightarrow> string \<Rightarrow> string \<Rightarrow> (py_error + string) \<times> fs" where
  "copy_geometry_from_template files project_folder project_file template_geom =
     (let project_name = path_stem project_file;
          template_geom_path = path_join project_folder (project_name @ ''.'' @ template_geom);
          template_hdf_path = template_geom_path @ ''.hdf''
      in if files template_geom_path = None then (Inl FileNotFoundError, files)
         else if files template_hdf_path = None then (Inl FileNotFoundError, files)
         else case files project_file of
           None \<Rightarrow> (Inl FileNotFoundError, files)
         | Some content \<Rightarrow>
             (let lines = readlines content;
                  next_number = geom_next_number lines;
                  next_geom_number = fmt02d next_number;
                  new_geom_path = path_join project_folder (project_name @ ''.g'' @ next_geom_number);
                  new_hdf_path = new_geom_path @ ''.hdf''
              in case copyfile files template_geom_path new_geom_path of
                   Inl e \<Rightarrow> (Inl e, files)
                 | Inr files1 \<Rightarrow>
                     (case copyfile files1 template_hdf_path new_hdf_path of
                        Inl e \<Rightarrow> (Inl e, files1)
                      | Inr files2 \<Rightarrow>
                          (Inr (''g'' @ next_geom_number),
                           files2(project_file \<mapsto> writelines (insert_geom_line lines next_number))))))"

subsection \<open>\<open>copy_unsteady_from_template\<close>\<close>

text \<open>The first line whose unsteady number is greater than the new one.\<close>

fun unsteady_insertion_index :: "nat \<Rightarrow> string list \<Rightarrow> nat \<Rightarrow> nat option" where
  "unsteady_insertion_index i [] next_number = None"
| "unsteady_insertion_index i (line # rest) next_number =
     (case match_key_digits ''Unsteady File=u'' (py_strip line) of
        Some ds \<Rightarrow>
          (if digits_to_nat ds > next_number then Some i
           else unsteady_insertion_index (i + 1) rest next_number)
      | None \<Rightarrow> unsteady_insertion_index (i + 1) rest next_number)"

definition insert_unsteady_line :: "string list \<Rightarrow> nat \<Rightarrow> string list" where
  "insert_unsteady_line lines next_number =
     (let new_unsteady_line = ''Unsteady File=u'' @ fmt02d next_number @ [CHR 0x0A]
      in case unsteady_insertion_index 0 lines next_number of
           Some insertion_index \<Rightarrow> list_insert insertion_index new_unsteady_line lines
         | None \<Rightarrow>
             (let matching = filter (\<lambda>i. match_key_digits ''Unsteady File=u'' (py_strip (lines ! i)) \<noteq> None)
                               [0..<length lines]
              in if matching \<noteq> []
                 then list_insert (last matching + 1) new_unsteady_line lines
                 else lines @ [new_unsteady_line]))"

definition copy_unsteady_from_template ::
  "fs \<Rightarrow> string \<Rightarrow> string \<Rightarrow> string \<Rightarrow> (py_error + string) \<times> fs" where
  "copy_unsteady_from_template files project_folder project_file template_unsteady =
     (let project_name = path_stem project_file;
          template_unsteady_path = path_join project_folder (project_name @ ''.'' @ template_unsteady)
      in if files template_unsteady_path = None then (Inl FileNotFoundError, files)
         else case files project_file of
           None \<Rightarrow> (Inl FileNotFoundError, files)
         | Some content \<Rightarrow>
             (let lines = readlines content;
                  next_number = unsteady_next_number lines;
                  next_unsteady_number = fmt02d next_number;
                  new_unsteady_path = path_join project_folder (project_name @ ''.u'' @ next_unsteady_number);
                  template_hdf_path = template_unsteady_path @ ''.hdf'';
                  new_hdf_path = new_unsteady_path @ ''.hdf''
              in case copyfile files template_unsteady_path new_unsteady_path of
                   Inl e \<Rightarrow> (Inl e, files)
                 | Inr files1 \<Rightarrow>
                     (case (if files1 template_hdf_path \<noteq> None
                            then copyfile files1 template_hdf_path new_hdf_path else Inr files1) of
                        Inl e \<Rightarrow> (Inl e, files1)
                      | Inr files2 \<Rightarrow>
                          (Inr (''u'' @ next_unsteady_number),
                           files2(project_file \<mapsto> writelines (insert_unsteady_line lines next_number))))))"

subsection \<open>\<open>get_geom_entries\<close> and \<open>apply_geometry_to_plan\<close>\<close>

text \<open>
  \<open>line.split('=')[1].strip()[1:]\<close> of every line that starts with \<open>Geom File=\<close>; such a
  line holds the separator, so the split has a second piece.
\<close>

definition geom_entries_of_lines :: "string list \<Rightarrow> string list" where
  "geom_entries_of_lines lines =
     map (\<lambda>line. drop 1 (py_strip (split_on (CHR ''='') line ! 1)))
       (filter (\<lambda>line. startswith line ''Geom File='') lines)"

definition get_geom_entries :: "fs \<Rightarrow> string \<Rightarrow> py_error + string list" where
  "get_geom_entries files project_file =
     (case files project_file of
        None \<Rightarrow> Inl FileNotFoundError
      | Some content \<Rightarrow> Inr (geom_entries_of_lines (readlines content)))"

text \<open>
  \<open>pd.DataFrame(entries)['geom_number'].values\<close>: a frame built from an empty list of
  rows has no column at all, and asking for one raises KeyError.
\<close>

definition column_values :: "string list \<Rightarrow> py_error + string list" where
  "column_values entries = (if entries = [] then Inl KeyError else Inr entries)"

definition apply_geometry_to_plan ::
  "fs \<Rightarrow> string \<Rightarrow> string \<Rightarrow> string \<Rightarrow> (py_error + unit) \<times> fs" where
  "apply_geometry_to_plan files plan_file geometry_number project_file =
     (case get_geom_entries files project_file of
        Inl e \<Rightarrow> (Inl e, files)
      | Inr geom_entries \<Rightarrow>
          (case column_values geom_entries of
             Inl e \<Rightarrow> (Inl e, files)
           | Inr vals \<Rightarrow>
               if geometry_number \<notin> set vals then (Inl ValueError, files)
               else case files plan_file of
                 None \<Rightarrow> (Inl FileNotFoundError, files)
               | Some content \<Rightarrow>
                   (Inr (),
                    files(plan_file \<mapsto>
                      concat (map (\<lambda>line. if startswith line ''Geom File=g''
                                           then ''Geom File=g'' @ geometry_number @ [CHR 0x0A]
                                           else line)
                                (readlines content))))))"

subsection \<open>\<open>update_geompre_flags\<close>\<close>

definition update_geompre_flags :: "fs \<Rightarrow> string \<Rightarrow> int \<Rightarrow> int \<Rightarrow> (py_error + unit) \<times> fs" where
  "update_geompre_flags files file_path run_htab_value use_ib_tables_value =
     (if run_htab_value \<notin> set [-1, 0] then (Inl ValueError, files)
      else if use_ib_tables_value \<notin> set [-1, 0] then (Inl ValueError, files)
      else case files file_path of
        None \<Rightarrow> (Inl FileNotFoundError, files)
      | Some content \<Rightarrow>
          (Inr (),
           files(file_path \<mapsto>
             writelines
               (map (\<lambda>line.
                       if startswith (py_strip line) ''Run HTab=''
                       then ''Run HTab= '' @ show_int run_htab_value @ '' '' @ [CHR 0x0A]
                       else if startswith (py_strip line) ''UNET Use Existing IB Tables=''
                       then ''UNET Use Existing IB Tables= '' @ show_int use_ib_tables_value @ '' '' @ [CHR 0x0A]
                       else line)
                  (readlines content)))))"


subsection \<open>\<open>int(s)\<close> and \<open>s.split()\<close>\<close>

text \<open>
  A digit part is \<open>digit (["_"] digit)*\<close>: digits, with single underscores between them.
\<close>

fun no_double_underscore :: "string \<Rightarrow> bool" where
  "no_double_underscore (a # b # cs) = (\<not> (a = CHR ''_'' \<and> b = CHR ''_'') \<and> no_double_underscore (b # cs))"
| "no_double_underscore cs = True"

definition valid_digitpart :: "string \<Rightarrow> bool" where
  "valid_digitpart s =
     (s \<noteq> [] \<and> is_digit (hd s) \<and> is_digit (last s)
      \<and> list_all (\<lambda>c. is_digit c \<or> c = CHR ''_'') s \<and> no_double_underscore s)"

definition digitpart_value :: "string \<Rightarrow> nat" where
  "digitpart_value s = digits_to_nat (filter is_digit s)"

text \<open>An optional sign in front of a text: whether it is a minus, and the rest.\<close>

definition split_sign :: "string \<Rightarrow> bool \<times> string" where
  "split_sign s =
     (case s of
        c # cs \<Rightarrow> (if c = CHR ''-'' then (True, cs) else if c = CHR ''+'' then (False, cs) else (False, s))
      | [] \<Rightarrow> (False, s))"

text \<open>\<open>int(s)\<close> for a string: None stands for the ValueError it raises.\<close>

definition py_int :: "string \<Rightarrow> int option" where
  "py_int s =
     (let (neg, body) = split_sign (py_strip s)
      in if valid_digitpart body
         then Some (if neg then - int (digitpart_value body) else int (digitpart_value body))
         else None)"

text \<open>\<open>s.split()\<close>: the pieces between runs of white space, none of them empty.\<close>

fun split_ws_acc :: "string \<Rightarrow> string \<Rightarrow> string list" where
  "split_ws_acc acc [] = (if acc = [] then [] else [rev acc])"
| "split_ws_acc acc (c # cs) =
     (if is_space c then (if acc = [] then split_ws_acc [] cs else rev acc # split_ws_acc [] cs)
      else split_ws_acc (c # acc) cs)"

definition split_ws :: "string \<Rightarrow> string list" where
  "split_ws s = split_ws_acc [] s"

subsection \<open>\<open>set_num_cores\<close>\<close>

text \<open>
  \<open>re.compile('(' + key + ')\d+').sub('\g<1>' + repl, s)\<close>: every match, from left to right,
  keeps the key and has its digits replaced.
\<close>

function sub_key_digits :: "string \<Rightarrow> string \<Rightarrow> string \<Rightarrow> string" where
  "sub_key_digits key repl s =
     (if s = [] then []
      else if startswith s key \<and> takeWhile is_digit (drop (length key) s) \<noteq> []
      then key @ repl @ sub_key_digits key repl (dropWhile is_digit (drop (length key) s))
      else hd s # sub_key_digits key repl (tl s))"
  by pat_completeness auto
termination
proof (relation "measure (\<lambda>(key, repl, s). length s)")
  show "wf (measure (\<lambda>(key, repl, s). length s))" by simp
next
  fix key repl s :: string
  assume "s \<noteq> []"
    and m: "startswith s key \<and> takeWhile is_digit (drop (length key) s) \<noteq> []"
  have "length (takeWhile is_digit (drop (length key) s))
          + length (dropWhile is_digit (drop (length key) s)) = length (drop (length key) s)"
    by (metis length_append takeWhile_dropWhile_id)
  moreover from m have "1 \<le> length (takeWhile is_digit (drop (length key) s))"
    by (cases "takeWhile is_digit (drop (length key) s)") simp_all
  moreover have "length (drop (length key) s) \<le> length s" by simp
  ultimately have "length (dropWhile is_digit (drop (length key) s)) < length s" by linarith
  then show "((key, repl, dropWhile is_digit (drop (length key) s)), (key, repl, s))
               \<in> measure (\<lambda>(key, repl, s). length s)"
    by simp
next
  fix key repl s :: string
  assume "s \<noteq> []"
  then show "((key, repl, tl s), (key, repl, s)) \<in> measure (\<lambda>(key, repl, s). length s)"
    by (cases s) simp_all
qed

declare sub_key_digits.simps [simp del]

text \<open>\<open>pattern.search(s)\<close>: the text of the leftmost match.\<close>

fun search_key_digits :: "string \<Rightarrow> string \<Rightarrow> string option" where
  "search_key_digits key [] = None"
| "search_key_digits key (c # cs) =
     (if startswith (c # cs) key \<and> takeWhile is_digit (drop (length key) (c # cs)) \<noteq> []
      then Some (key @ takeWhile is_digit (drop (length key) (c # cs)))
      else search_key_digits key cs)"

definition d1_cores :: string where "d1_cores = ''UNET D1 Cores= ''"
definition d2_cores :: string where "d2_cores = ''UNET D2 Cores= ''"
definition ps_cores :: string where "ps_cores = ''PS Cores= ''"

text \<open>The core count is a natural number, written in decimal into the replacement.\<close>

definition set_num_cores_content :: "string \<Rightarrow> nat \<Rightarrow> py_error + string" where
  "set_num_cores_content content num_cores =
     (let new_content = sub_key_digits d2_cores (show_nat num_cores) content
      in case (case search_key_digits d2_cores new_content of
                 None \<Rightarrow> Inr False
               | Some grp \<Rightarrow>
                   (case py_int (last (split_ws grp)) of
                      None \<Rightarrow> Inl ValueError
                    | Some v \<Rightarrow> Inr (v = 2))) of
           Inl e \<Rightarrow> Inl e
         | Inr d2_is_two \<Rightarrow>
             if d2_is_two
             then Inr (sub_key_digits ps_cores ''1'' (sub_key_digits d1_cores ''1'' new_content))
             else Inr (sub_key_digits ps_cores (show_nat num_cores)
                         (sub_key_digits d1_cores (show_nat num_cores) new_content)))"

definition set_num_cores :: "fs \<Rightarrow> string \<Rightarrow> nat \<Rightarrow> (py_error + unit) \<times> fs" where
  "set_num_cores files plan_file num_cores =
     (case files plan_file of
        None \<Rightarrow> (Inl FileNotFoundError, files)
      | Some content \<Rightarrow>
          (case set_num_cores_content content num_cores of
             Inl e \<Rightarrow> (Inl e, files)
           | Inr new_content \<Rightarrow> (Inr (), files(plan_file \<mapsto> new_content))))"


section \<open>Fixed-width table codec\<close>

subsection \<open>Floating-point values\<close>

text \<open>
  A float is modelled by the exact rational value of its decimal literal, or one of the
  three non-finite values. Rounding to 53 bits and overflow to infinity are outside the
  model; whole numbers of up to eight characters, which the claims below are about, are
  represented exactly by a double.
\<close>

datatype pyfloat = Fin rat | PosInf | NegInf | NaN

text \<open>The mantissa \<open>digitpart ["." [digitpart]] | "." digitpart\<close> of a float literal.\<close>

definition parse_mantissa :: "string \<Rightarrow> rat option" where
  "parse_mantissa m =
     (let ip = takeWhile (\<lambda>c. c \<noteq> CHR ''.'') m;
          rest = dropWhile (\<lambda>c. c \<noteq> CHR ''.'') m
      in if rest = [] then (if valid_digitpart ip then Some (of_nat (digitpart_value ip)) else None)
         else (let fp = tl rest;
                   k = length (filter is_digit fp)
               in if (ip = [] \<or> valid_digitpart ip) \<and> (fp = [] \<or> valid_digitpart fp)
                     \<and> \<not> (ip = [] \<and> fp = [])
                  then Some (of_nat (digitpart_value ip) + of_nat (digitpart_value fp) / 10 ^ k)
                  else None))"

text \<open>The exponent \<open>("e" | "E") ["+" | "-"] digitpart\<close>, when there is one.\<close>

definition parse_exponent :: "string \<Rightarrow> int option" where
  "parse_exponent e =
     (if e = [] then Some 0
      else (let (neg, body) = split_sign (tl e)
            in if valid_digitpart body
               then Some (if neg then - int (digitpart_value body) else int (digitpart_value body))
               else None))"

definition is_exp_char :: "char \<Rightarrow> bool" where
  "is_exp_char c = (c = CHR ''e'' \<or> c = CHR ''E'')"

text \<open>\<open>float(s)\<close> for a string: None stands for the ValueError it raises.\<close>

definition py_float :: "string \<Rightarrow> pyfloat option" where
  "py_float s =
     (let (neg, body) = split_sign (py_strip s);
          low = map lower_char body
      in if low = ''inf'' \<or> low = ''infinity'' then Some (if neg then NegInf else PosInf)
         else if low = ''nan'' then Some NaN
         else (case (parse_mantissa (takeWhile (\<lambda>c. \<not> is_exp_char c) body),
                     parse_exponent (dropWhile (\<lambda>c. \<not> is_exp_char c) body)) of
                 (Some m, Some e) \<Rightarrow>
                   (let q = (if 0 \<le> e then m * 10 ^ nat e else m / 10 ^ nat (- e))
                    in Some (Fin (if neg then - q else q)))
               | _ \<Rightarrow> None))"

subsection \<open>\<open>identify_tables\<close>\<close>

text \<open>\<open>p in s\<close> for strings.\<close>

fun contains :: "string \<Rightarrow> string \<Rightarrow> bool" where
  "contains [] p = (p = [])"
| "contains (c # cs) p = (startswith (c # cs) p \<or> contains cs p)"

definition table_types :: "string list" where
  "table_types = [''Flow Hydrograph='', ''Gate Openings='', ''Stage Hydrograph='',
                  ''Uniform Lateral Inflow='', ''Lateral Inflow Hydrograph='']"

definition is_table_line :: "string \<Rightarrow> bool" where
  "is_table_line line = list_ex (\<lambda>table_type. contains line table_type) table_types"

text \<open>A located table: its name, its start line and its end line.\<close>

type_synonym table = "string \<times> int \<times> int"

text \<open>
  The loop over \<open>enumerate(lines)\<close> from index \<open>i\<close> on. \<open>current_table\<close> holds the name,
  the start line and the declared count of the table opened last. A table line holds the
  separator, so the split of its stripped text has a second piece.
\<close>

fun identify_loop ::
  "nat \<Rightarrow> string list \<Rightarrow> table list \<Rightarrow> (string \<times> int \<times> int) option
     \<Rightarrow> py_error + table list \<times> (string \<times> int \<times> int) option" where
  "identify_loop i [] tables current_table = Inr (tables, current_table)"
| "identify_loop i (line # rest) tables current_table =
     (if is_table_line line
      then (let tables' = (case current_table of
                             Some (name, start, num) \<Rightarrow> tables @ [(name, start, int i - 1)]
                           | None \<Rightarrow> tables);
                table_name = hd (split_on (CHR ''='') (py_strip line)) @ ''=''
            in case py_int (split_on (CHR ''='') (py_strip line) ! 1) of
                 None \<Rightarrow> Inl ValueError
               | Some num_values \<Rightarrow>
                   identify_loop (i + 1) rest tables' (Some (table_name, int i + 1, num_values)))
      else identify_loop (i + 1) rest tables current_table)"

definition identify_tables :: "string list \<Rightarrow> py_error + table list" where
  "identify_tables lines =
     (case identify_loop 0 lines [] None of
        Inl e \<Rightarrow> Inl e
      | Inr (tables, current_table) \<Rightarrow>
          (case current_table of
             Some (name, start, num) \<Rightarrow> Inr (tables @ [(name, start, start + (num + 9) div 10)])
           | None \<Rightarrow> Inr tables))"

subsection \<open>\<open>parse_fixed_width_table\<close>\<close>

text \<open>A slice index of Python: negative indices count from the end, all are clipped.\<close>

definition slice_index :: "nat \<Rightarrow> int \<Rightarrow> nat" where
  "slice_index len i = (if i < 0 then nat (max 0 (int len + i)) else min len (nat i))"

text \<open>\<open>xs[a:b]\<close>\<close>

definition py_slice :: "'a list \<Rightarrow> int \<Rightarrow> int \<Rightarrow> 'a list" where
  "py_slice xs a b =
     (let lo = slice_index (length xs) a; hi = slice_index (length xs) b
      in take (hi - lo) (drop lo xs))"

text \<open>\<open>[xs[i:i+n] for i in range(0, len(xs), n)]\<close>\<close>

function chunks :: "nat \<Rightarrow> 'a list \<Rightarrow> 'a list list" where
  "chunks n xs = (if xs = [] \<or> n = 0 then [] else take n xs # chunks n (drop n xs))"
  by pat_completeness auto
termination
  by (relation "measure (\<lambda>(n, xs). length xs)") auto

declare chunks.simps [simp del]

text \<open>
  One field after \<open>strip\<close>: the floats it adds to the row; a field \<open>float\<close> rejects adds
  nothing.
\<close>

definition parse_value :: "string \<Rightarrow> pyfloat list" where
  "parse_value v =
     (if length v > 8
      then (case (py_float (take 8 v), py_float (drop 8 v)) of
              (Some a, Some b) \<Rightarrow> [a, b] | _ \<Rightarrow> [])
      else if v \<noteq> [] then (case py_float v of Some a \<Rightarrow> [a] | None \<Rightarrow> [])
      else [])"

definition parse_line :: "string \<Rightarrow> pyfloat list" where
  "parse_line line = concat (map (\<lambda>field. parse_value (py_strip field)) (chunks 8 line))"

definition parse_fixed_width_table :: "string list \<Rightarrow> int \<Rightarrow> int \<Rightarrow> pyfloat list" where
  "parse_fixed_width_table lines start end = concat (map parse_line (py_slice lines start end))"

subsection \<open>\<open>extract_tables\<close>, \<open>scale_flow_hydrograph\<close>, \<open>write_table_to_file\<close>\<close>

text \<open>A data frame with the single column \<open>Value\<close>, of floats or of integers.\<close>

datatype dataframe = FloatColumn "pyfloat list" | IntColumn "int list"

definition extract_tables_of_lines :: "string list \<Rightarrow> py_error + (string \<rightharpoonup> dataframe)" where
  "extract_tables_of_lines lines =
     (case identify_tables lines of
        Inl e \<Rightarrow> Inl e
      | Inr tables \<Rightarrow>
          Inr (foldl (\<lambda>extracted (table_name, start, end).
                        extracted(table_name \<mapsto> FloatColumn (parse_fixed_width_table lines start end)))
                 Map.empty tables))"

definition extract_tables :: "fs \<Rightarrow> string \<Rightarrow> py_error + (string \<rightharpoonup> dataframe)" where
  "extract_tables files file_path =
     (case files file_path of
        None \<Rightarrow> Inl FileNotFoundError
      | Some content \<Rightarrow> extract_tables_of_lines (readlines content))"

text \<open>The product of two floats, in exact arithmetic on the finite ones.\<close>

definition pf_sign :: "pyfloat \<Rightarrow> int" where
  "pf_sign x = (case x of Fin q \<Rightarrow> (if q < 0 then -1 else if q = 0 then 0 else 1)
                | PosInf \<Rightarrow> 1 | NegInf \<Rightarrow> -1 | NaN \<Rightarrow> 0)"

definition pf_mul :: "pyfloat \<Rightarrow> pyfloat \<Rightarrow> pyfloat" where
  "pf_mul x y =
     (case (x, y) of
        (Fin a, Fin b) \<Rightarrow> Fin (a * b)
      | _ \<Rightarrow> if x = NaN \<or> y = NaN \<or> pf_sign x * pf_sign y = 0 then NaN
             else if 0 < pf_sign x * pf_sign y then PosInf else NegInf)"

text \<open>\<open>round\<close> of numpy: to the nearest whole number, a tie to the even one.\<close>

definition round_half_even :: "rat \<Rightarrow> int" where
  "round_half_even q =
     (let f = \<lfloor>q\<rfloor>; d = q - of_int f
      in if d < 1 / 2 then f else if 1 / 2 < d then f + 1 else if even f then f else f + 1)"

text \<open>
  \<open>.round().astype(int)\<close> of a column: pandas refuses to cast a non-finite value, with a
  ValueError.
\<close>

fun round_astype_int :: "pyfloat list \<Rightarrow> py_error + int list" where
  "round_astype_int [] = Inr []"
| "round_astype_int (Fin q # xs) =
     (case round_astype_int xs of Inl e \<Rightarrow> Inl e | Inr vs \<Rightarrow> Inr (round_half_even q # vs))"
| "round_astype_int (x # xs) = Inl ValueError"

definition column_floats :: "dataframe \<Rightarrow> pyfloat list" where
  "column_floats df = (case df of FloatColumn xs \<Rightarrow> xs | IntColumn vs \<Rightarrow> map (\<lambda>v. Fin (of_int v)) vs)"

text \<open>The result is the updated dictionary and the original values, None when absent.\<close>

definition scale_flow_hydrograph ::
  "(string \<rightharpoonup> dataframe) \<Rightarrow> pyfloat \<Rightarrow> py_error + (string \<rightharpoonup> dataframe) \<times> dataframe option" where
  "scale_flow_hydrograph tables scale_factor =
     (case tables ''Flow Hydrograph='' of
        None \<Rightarrow> Inr (tables, None)
      | Some flow_df \<Rightarrow>
          (case round_astype_int (map (\<lambda>v. pf_mul v scale_factor) (column_floats flow_df)) of
             Inl e \<Rightarrow> Inl e
           | Inr scaled \<Rightarrow> Inr (tables(''Flow Hydrograph='' \<mapsto> IntColumn scaled), Some flow_df)))"

text \<open>The format \<open>f'{value:8d}'\<close>: right-justified in eight characters, never cut.\<close>

definition fmt8d :: "int \<Rightarrow> string" where
  "fmt8d v = replicate (8 - length (show_int v)) (CHR '' '') @ show_int v"

text \<open>The rows of ten values; the format code \<open>d\<close> raises ValueError on a float.\<close>

definition format_rows :: "dataframe \<Rightarrow> py_error + string list" where
  "format_rows df =
     (case df of
        IntColumn vs \<Rightarrow> Inr (map (\<lambda>row. concat (map fmt8d row) @ [CHR 0x0A]) (chunks 10 vs))
      | FloatColumn xs \<Rightarrow> (if xs = [] then Inr [] else Inl ValueError))"

text \<open>\<open>lines[start_line:start_line+len(formatted_values)] = formatted_values\<close>\<close>

definition assign_slice :: "'a list \<Rightarrow> int \<Rightarrow> 'a list \<Rightarrow> 'a list" where
  "assign_slice lines start_line new =
     (let lo = slice_index (length lines) start_line;
          hi = max lo (slice_index (length lines) (start_line + int (length new)))
      in take lo lines @ new @ drop hi lines)"

definition write_table_lines :: "string list \<Rightarrow> dataframe \<Rightarrow> int \<Rightarrow> py_error + string list" where
  "write_table_lines lines df start_line =
     (case format_rows df of
        Inl e \<Rightarrow> Inl e
      | Inr formatted_values \<Rightarrow> Inr (assign_slice lines start_line formatted_values))"

definition write_table_to_file ::
  "fs \<Rightarrow> string \<Rightarrow> string \<Rightarrow> dataframe \<Rightarrow> int \<Rightarrow> (py_error + unit) \<times> fs" where
  "write_table_to_file files file_path table_name df start_line =
     (case files file_path of
        None \<Rightarrow> (Inl FileNotFoundError, files)
      | Some content \<Rightarrow>
          (case write_table_lines (readlines content) df start_line of
             Inl e \<Rightarrow> (Inl e, files)
           | Inr lines \<Rightarrow> (Inr (), files(file_path \<mapsto> writelines lines))))"


section \<open>Properties\<close>

subsection \<open>Append allocation\<close>

lemma foldl_max_Max: "foldl max a xs = Max (insert a (set xs))"
proof (induction xs arbitrary: a)
  case Nil
  show ?case by simp
next
  case (Cons x xs)
  have "Max (insert (max a x) (set xs)) = Max (insert a (insert x (set xs)))"
    by (metis List.finite_set Max_insert finite.insertI insert_not_empty max.assoc Max_singleton)
  with Cons show ?case by simp
qed

lemma py_max_Max: "xs \<noteq> [] \<Longrightarrow> py_max xs = Max (set xs)"
  by (cases xs) (simp_all add: py_max_def foldl_max_Max)

lemma append_next_number_Max:
  "append_next_number xs = (if xs = [] then 1 else Max (set xs) + 1)"
  by (simp add: append_next_number_def py_max_Max)

text \<open>
  C5. Append allocation, as \<open>copy_unsteady_from_template\<close> and \<open>copy_plan_from_template\<close>
  compute it, is one more than the largest existing number, and 1 when there is none; for
  the existing numbers 1 and 3 it is 4, not 2.
\<close>

theorem C5_append_allocation:
  "append_next_number xs = (if xs = [] then 1 else Max (set xs) + 1)
   \<and> unsteady_next_number lines =
       (let xs = key_numbers ''Unsteady File=u'' lines in if xs = [] then 1 else Max (set xs) + 1)
   \<and> plan_next_number content =
       (let xs = map digits_to_nat (findall_key_digits ''Plan File=p'' content)
        in if xs = [] then 1 else Max (set xs) + 1)
   \<and> append_next_number [1, 3] = 4"
  by (simp add: unsteady_next_number_def plan_next_number_def append_next_number_Max Let_def)

theorem C5_append_allocation_witness:
  "append_next_number [1, 3] = Max (set [1, 3]) + 1 \<and> append_next_number [] = 1"
  using C5_append_allocation [of "[1, 3]" "[]" "[]"] C5_append_allocation [of "[]" "[]" "[]"]
  by simp

subsection \<open>Scaling a dictionary without the flow hydrograph\<close>

text \<open>
  C10. When the dictionary of tables has no key \<open>Flow Hydrograph=\<close>, \<open>scale_flow_hydrograph\<close>
  raises nothing and returns the dictionary as it is, with None for the original values,
  whatever the scale factor.
\<close>

theorem C10_scale_absent_table:
  "tables ''Flow Hydrograph='' = None \<Longrightarrow>
     scale_flow_hydrograph tables scale_factor = Inr (tables, None)"
  by (simp add: scale_flow_hydrograph_def)

theorem C10_scale_absent_table_witness:
  "[''Stage Hydrograph='' \<mapsto> FloatColumn [Fin 1]] ''Flow Hydrograph='' = None
   \<and> scale_flow_hydrograph [''Stage Hydrograph='' \<mapsto> FloatColumn [Fin 1]] (Fin 2)
       = Inr ([''Stage Hydrograph='' \<mapsto> FloatColumn [Fin 1]], None)"
  using C10_scale_absent_table [of "[''Stage Hydrograph='' \<mapsto> FloatColumn [Fin 1]]" "Fin 2"]
  by simp

end
